theory Spec2Isabelle
  imports Main
begin

section \<open>The authentication service: data model\<close>

text \<open>
  The development embeds \<^verbatim>\<open>AuthService\<close> (sign-up, admin sign-up, sign-in, logout and
  token refresh). Every method is a function from the state of the three stores to a
  result and the new state; an exception is the \<open>Inl\<close> branch of the result, and the
  state returned with it is the state at the moment of the throw.
\<close>

datatype UserRoleEnum = USER | ADMIN

record UserEntity =
  u_id :: string
  u_email :: string
  u_password :: string
  u_role :: UserRoleEnum

text \<open>The entity built by \<^verbatim>\<open>userRepository.create\<close>: it has no identity before it is saved.\<close>

record UserDraft =
  d_email :: string
  d_password :: string
  d_role :: UserRoleEnum

text \<open>The fields of the request objects that the service reads.\<close>

record SignUpReqDto =
  su_deviceId :: string
  su_email :: string
  su_password :: string

record SignInReqDto =
  si_deviceId :: string
  si_email :: string
  si_password :: string

record IUserData =
  userId :: string
  deviceId :: string

record TokenResDto =
  accessToken :: string
  refreshToken_of :: string

record AuthUserResDto =
  res_user :: UserEntity
  res_tokens :: TokenResDto

text \<open>
  The exceptions a call can end with. \<open>TypeError\<close> is what JavaScript throws when a
  property of \<^verbatim>\<open>null\<close> is read.
\<close>

datatype error = ConflictException | UnauthorizedException | NotFoundException | TypeError

text \<open>
  A store of tokens is a table of rows \<open>((userId, deviceId), token)\<close>: the rows are kept
  as a list, so that two rows for one device are two entries.
\<close>

type_synonym token_store = "((string \<times> string) \<times> string) list"

text \<open>The effects on the stores, in the order in which they are applied.\<close>

datatype event =
    UserSaved string
  | RefreshDeleted string string
  | CacheRemoved string string
  | RefreshSaved string string string
  | CacheSaved string string string

record state =
  users :: "UserEntity list"
  refreshTokens :: token_store
  cache :: token_store
  trace :: "event list"

text \<open>
  What the outside world contributes to one call: the password hasher (bcrypt), the token
  issuer, the identity that the user store gives to a saved user, and, for each
  \<^verbatim>\<open>Promise.all\<close> of two store operations, which of the two takes effect first.
\<close>

record env =
  bcrypt_hash :: "string \<Rightarrow> string"
  bcrypt_compare :: "string \<Rightarrow> string \<Rightarrow> bool"
  generateAuthTokens :: "IUserData \<Rightarrow> TokenResDto"
  genId :: string
  deleteInOrder :: bool
  saveInOrder :: bool

text \<open>
  A promise that has not been awaited. It is an object, and every object is truthy in
  JavaScript, whatever the promise resolves to.
\<close>

datatype 'a promise = Promise 'a

definition await :: "'a promise \<Rightarrow> 'a" where
  "await p = (case p of Promise v \<Rightarrow> v)"

definition truthy :: "'a promise \<Rightarrow> bool" where
  "truthy p = (case p of Promise v \<Rightarrow> True)"

text \<open>
  \<^verbatim>\<open>await Promise.all([a, b])\<close> for two store operations: both are applied, in the listed
  order or in the other one, and the call goes on after both.
\<close>

definition Promise_all :: "bool \<Rightarrow> (state \<Rightarrow> state) \<Rightarrow> (state \<Rightarrow> state) \<Rightarrow> state \<Rightarrow> state" where
  "Promise_all inOrder a b s = (if inOrder then b (a s) else a (b s))"

section \<open>The collaborators\<close>

text \<open>
  Modelled from the spec: \<^verbatim>\<open>UserRepository.findOne\<close> with a \<^verbatim>\<open>where\<close> on the email
  (``findByEmail(email, projection) \<rightarrow> user|none''); the repository class is not among the
  sources. The projection \<^verbatim>\<open>select: {id, password}\<close> is left to the caller, which reads
  these two fields only.
\<close>

definition userRepository_findOne :: "string \<Rightarrow> state \<Rightarrow> UserEntity option" where
  "userRepository_findOne e s = find (\<lambda>u. u_email u = e) (users s)"

text \<open>
  Modelled from the spec: \<^verbatim>\<open>UserRepository.findOneBy({id})\<close> (``findById(id) \<rightarrow>
  user|none'').
\<close>

definition userRepository_findOneBy :: "string \<Rightarrow> state \<Rightarrow> UserEntity option" where
  "userRepository_findOneBy i s = find (\<lambda>u. u_id u = i) (users s)"

text \<open>
  Modelled from the spec: \<^verbatim>\<open>UserService.isEmailUniqOrThrow\<close> (``email must be unique;
  violation fails with a Conflict-kind error (delegated check)''); the user service is not
  among the sources.
\<close>

definition isEmailUniqOrThrow :: "string \<Rightarrow> state \<Rightarrow> error + unit" where
  "isEmailUniqOrThrow e s =
     (case find (\<lambda>u. u_email u = e) (users s) of
        Some u \<Rightarrow> Inl ConflictException
      | None \<Rightarrow> Inr ())"

text \<open>
  Modelled from the spec: \<^verbatim>\<open>UserRepository.create\<close> and \<^verbatim>\<open>save\<close> (``create+save(fields)
  \<rightarrow> user'', ``persists new user with default role''). \<open>create\<close> copies the fields of the
  request with the hashed password in place of the plain one; \<open>save\<close> gives the entity its
  identity and adds it to the store.
\<close>

definition userRepository_create :: "SignUpReqDto \<Rightarrow> string \<Rightarrow> UserDraft" where
  "userRepository_create dto password =
     \<lparr>d_email = su_email dto, d_password = password, d_role = USER\<rparr>"

definition userRepository_save :: "env \<Rightarrow> UserDraft \<Rightarrow> state \<Rightarrow> UserEntity \<times> state" where
  "userRepository_save e d s =
     (let user = \<lparr>u_id = genId e, u_email = d_email d, u_password = d_password d,
                  u_role = d_role d\<rparr>
      in (user, s\<lparr>users := users s @ [user], trace := trace s @ [UserSaved (u_id user)]\<rparr>))"

text \<open>
  Modelled from the spec: the refresh-token store, \<^verbatim>\<open>RefreshTokenRepository\<close>
  (``save(userId, deviceId, token); delete(userId, deviceId) (idempotent, no error if
  absent)''). \<open>saveToken\<close> adds a row; \<open>delete\<close> removes every row of the device, and it is
  not an error when there is none.
\<close>

definition refreshRepository_saveToken :: "string \<Rightarrow> string \<Rightarrow> string \<Rightarrow> state \<Rightarrow> state" where
  "refreshRepository_saveToken u d t s =
     s\<lparr>refreshTokens := refreshTokens s @ [((u, d), t)],
       trace := trace s @ [RefreshSaved u d t]\<rparr>"

definition refreshRepository_delete :: "string \<Rightarrow> string \<Rightarrow> state \<Rightarrow> state" where
  "refreshRepository_delete u d s =
     s\<lparr>refreshTokens := filter (\<lambda>r. fst r \<noteq> (u, d)) (refreshTokens s),
       trace := trace s @ [RefreshDeleted u d]\<rparr>"

text \<open>
  Modelled from the spec: the access-token cache, \<^verbatim>\<open>AuthCacheService\<close> (``save(userId,
  deviceId, token); remove(userId, deviceId) (idempotent)'').
\<close>

definition authCacheService_saveToken :: "string \<Rightarrow> string \<Rightarrow> string \<Rightarrow> state \<Rightarrow> state" where
  "authCacheService_saveToken u d t s =
     s\<lparr>cache := cache s @ [((u, d), t)], trace := trace s @ [CacheSaved u d t]\<rparr>"

definition authCacheService_removeToken :: "string \<Rightarrow> string \<Rightarrow> state \<Rightarrow> state" where
  "authCacheService_removeToken u d s =
     s\<lparr>cache := filter (\<lambda>r. fst r \<noteq> (u, d)) (cache s),
       trace := trace s @ [CacheRemoved u d]\<rparr>"

text \<open>
  Modelled from the spec: \<^verbatim>\<open>AuthMapper.toResponseDto\<close> (``returns user projection + token
  pair''). Which fields of the user the projection keeps is not said; the model keeps the
  entity.
\<close>

definition toResponseDto :: "UserEntity \<Rightarrow> TokenResDto \<Rightarrow> AuthUserResDto" where
  "toResponseDto user tokens = \<lparr>res_user = user, res_tokens = tokens\<rparr>"

section \<open>The service\<close>

definition signUp :: "env \<Rightarrow> SignUpReqDto \<Rightarrow> state \<Rightarrow> (error + AuthUserResDto) \<times> state" where
  "signUp e dto s =
     (case isEmailUniqOrThrow (su_email dto) s of
        Inl err \<Rightarrow> (Inl err, s)
      | Inr _ \<Rightarrow>
          (let password = bcrypt_hash e (su_password dto);
               (user, s1) = userRepository_save e (userRepository_create dto password) s;
               tokens = generateAuthTokens e \<lparr>userId = u_id user, deviceId = su_deviceId dto\<rparr>;
               s2 = Promise_all (saveInOrder e)
                      (authCacheService_saveToken (u_id user) (su_deviceId dto) (accessToken tokens))
                      (refreshRepository_saveToken (u_id user) (su_deviceId dto) (refreshToken_of tokens))
                      s1
           in (Inr (toResponseDto user tokens), s2)))"

text \<open>
  In \<^verbatim>\<open>signUpAdmin\<close> the result of \<^verbatim>\<open>bcrypt.compare\<close> is not awaited: \<^verbatim>\<open>isPasswordValid\<close> is
  the promise, and \<^verbatim>\<open>!isPasswordValid\<close> negates the truthiness of the promise.
\<close>

definition signUpAdmin :: "env \<Rightarrow> SignUpReqDto \<Rightarrow> state \<Rightarrow> (error + AuthUserResDto) \<times> state" where
  "signUpAdmin e dto s =
     (case isEmailUniqOrThrow (su_email dto) s of
        Inl err \<Rightarrow> (Inl err, s)
      | Inr _ \<Rightarrow>
          (let password = bcrypt_hash e (su_password dto);
               draft = (userRepository_create dto password)\<lparr>d_role := ADMIN\<rparr>;
               (user, s1) = userRepository_save e draft s;
               isPasswordValid = Promise (bcrypt_compare e (su_password dto) (u_password user))
           in if \<not> truthy isPasswordValid then (Inl UnauthorizedException, s1)
              else
                (let tokens = generateAuthTokens e \<lparr>userId = u_id user, deviceId = su_deviceId dto\<rparr>;
                     s2 = Promise_all (saveInOrder e)
                            (refreshRepository_saveToken (u_id user) (su_deviceId dto) (refreshToken_of tokens))
                            (authCacheService_saveToken (u_id user) (su_deviceId dto) (accessToken tokens))
                            s1
                 in (Inr (toResponseDto user tokens), s2))))"

definition signIn :: "env \<Rightarrow> SignInReqDto \<Rightarrow> state \<Rightarrow> (error + AuthUserResDto) \<times> state" where
  "signIn e dto s =
     (case userRepository_findOne (si_email dto) s of
        None \<Rightarrow> (Inl UnauthorizedException, s)
      | Some userEntity \<Rightarrow>
          (let isPasswordsMatch = await (Promise (bcrypt_compare e (si_password dto) (u_password userEntity)))
           in if \<not> isPasswordsMatch then (Inl UnauthorizedException, s)
              else
                (case userRepository_findOneBy (u_id userEntity) s of
                   None \<Rightarrow> (Inl TypeError, s)
                 | Some user \<Rightarrow>
                     (let tokens = generateAuthTokens e \<lparr>userId = u_id user, deviceId = si_deviceId dto\<rparr>;
                          s1 = Promise_all (deleteInOrder e)
                                 (refreshRepository_delete (u_id user) (si_deviceId dto))
                                 (authCacheService_removeToken (u_id user) (si_deviceId dto))
                                 s;
                          s2 = Promise_all (saveInOrder e)
                                 (refreshRepository_saveToken (u_id user) (si_deviceId dto) (refreshToken_of tokens))
                                 (authCacheService_saveToken (u_id user) (si_deviceId dto) (accessToken tokens))
                                 s1
                      in (Inr (toResponseDto user tokens), s2)))))"

definition logout :: "env \<Rightarrow> IUserData \<Rightarrow> state \<Rightarrow> (error + unit) \<times> state" where
  "logout e userData s =
     (Inr (),
      Promise_all (deleteInOrder e)
        (refreshRepository_delete (userId userData) (deviceId userData))
        (authCacheService_removeToken (userId userData) (deviceId userData))
        s)"

definition refreshToken :: "env \<Rightarrow> IUserData \<Rightarrow> state \<Rightarrow> (error + TokenResDto) \<times> state" where
  "refreshToken e userData s =
     (case userRepository_findOneBy (userId userData) s of
        None \<Rightarrow> (Inl TypeError, s)
      | Some user \<Rightarrow>
          (let s1 = Promise_all (deleteInOrder e)
                      (refreshRepository_delete (u_id user) (deviceId userData))
                      (authCacheService_removeToken (u_id user) (deviceId userData))
                      s;
               tokens = generateAuthTokens e \<lparr>userId = u_id user, deviceId = deviceId userData\<rparr>;
               s2 = Promise_all (saveInOrder e)
                      (refreshRepository_saveToken (u_id user) (deviceId userData) (refreshToken_of tokens))
                      (authCacheService_saveToken (u_id user) (deviceId userData) (accessToken tokens))
                      s1
           in (Inr tokens, s2)))"

section \<open>Observations on the stores\<close>

text \<open>The tokens that a store holds for a device of a user, one for each row.\<close>

definition tokensOf :: "string \<Rightarrow> string \<Rightarrow> token_store \<Rightarrow> string list" where
  "tokensOf u d st = map snd (filter (\<lambda>r. fst r = (u, d)) st)"

text \<open>The events that a call has added to the trace.\<close>

definition newEvents :: "state \<Rightarrow> state \<Rightarrow> event list" where
  "newEvents s s' = drop (length (trace s)) (trace s')"

fun is_delete :: "event \<Rightarrow> bool" where
  "is_delete (RefreshDeleted u d) = True"
| "is_delete (CacheRemoved u d) = True"
| "is_delete ev = False"

fun is_write :: "event \<Rightarrow> bool" where
  "is_write (RefreshSaved u d t) = True"
| "is_write (CacheSaved u d t) = True"
| "is_write ev = False"

text \<open>From the first write of a token on, no deletion of a token follows.\<close>

definition deletesBeforeWrites :: "event list \<Rightarrow> bool" where
  "deletesBeforeWrites tr = (\<not> list_ex is_delete (dropWhile (\<lambda>ev. \<not> is_write ev) tr))"

text \<open>The two deletions and the two writes of a device, in either order of completion.\<close>

definition deletePhase :: "bool \<Rightarrow> string \<Rightarrow> string \<Rightarrow> event list" where
  "deletePhase inOrder u d =
     (if inOrder then [RefreshDeleted u d, CacheRemoved u d]
      else [CacheRemoved u d, RefreshDeleted u d])"

definition writePhase :: "bool \<Rightarrow> string \<Rightarrow> string \<Rightarrow> TokenResDto \<Rightarrow> event list" where
  "writePhase inOrder u d t =
     (if inOrder then [RefreshSaved u d (refreshToken_of t), CacheSaved u d (accessToken t)]
      else [CacheSaved u d (accessToken t), RefreshSaved u d (refreshToken_of t)])"

text \<open>Referential integrity: every row of the two token stores belongs to a stored user.\<close>

definition sessionsReferenceUsers :: "state \<Rightarrow> bool" where
  "sessionsReferenceUsers s =
     (list_all (\<lambda>r. fst (fst r) \<in> set (map u_id (users s))) (refreshTokens s) \<and>
      list_all (\<lambda>r. fst (fst r) \<in> set (map u_id (users s))) (cache s))"

section \<open>Concrete inputs\<close>

definition ex_user :: UserEntity where
  "ex_user = \<lparr>u_id = ''u1'', u_email = ''a@x.com'', u_password = ''h:p1'', u_role = USER\<rparr>"

definition empty_state :: state where
  "empty_state = \<lparr>users = [], refreshTokens = [], cache = [], trace = []\<rparr>"

text \<open>One user with a session on device \<open>d1\<close>.\<close>

definition ex_state :: state where
  "ex_state = \<lparr>users = [ex_user], refreshTokens = [((''u1'', ''d1''), ''r0'')],
               cache = [((''u1'', ''d1''), ''a0'')], trace = []\<rparr>"

text \<open>A hasher that verifies what it hashed, and an issuer that signs \<open>a1\<close> and \<open>r1\<close>.\<close>

definition ex_env :: env where
  "ex_env = \<lparr>bcrypt_hash = (\<lambda>p. ''h:'' @ p), bcrypt_compare = (\<lambda>p h. h = ''h:'' @ p),
             generateAuthTokens = (\<lambda>ud. \<lparr>accessToken = ''a1'', refreshToken_of = ''r1''\<rparr>),
             genId = ''u2'', deleteInOrder = True, saveInOrder = False\<rparr>"

text \<open>The same world at a later call: the issuer signs \<open>a2\<close> and \<open>r2\<close>.\<close>

definition ex_env2 :: env where
  "ex_env2 = ex_env\<lparr>generateAuthTokens := (\<lambda>ud. \<lparr>accessToken = ''a2'', refreshToken_of = ''r2''\<rparr>),
                    deleteInOrder := False, saveInOrder := True\<rparr>"

text \<open>A hasher whose verification fails on its own hash.\<close>

definition failing_env :: env where
  "failing_env = ex_env\<lparr>bcrypt_compare := (\<lambda>p h. False)\<rparr>"

definition ex_signUp :: SignUpReqDto where
  "ex_signUp = \<lparr>su_deviceId = ''d1'', su_email = ''b@x.com'', su_password = ''p2''\<rparr>"

definition ex_signUp_duplicate :: SignUpReqDto where
  "ex_signUp_duplicate = \<lparr>su_deviceId = ''d1'', su_email = ''a@x.com'', su_password = ''p2''\<rparr>"

definition ex_signIn :: SignInReqDto where
  "ex_signIn = \<lparr>si_deviceId = ''d1'', si_email = ''a@x.com'', si_password = ''p1''\<rparr>"

definition ex_signIn_wrong :: SignInReqDto where
  "ex_signIn_wrong = \<lparr>si_deviceId = ''d1'', si_email = ''a@x.com'', si_password = ''bad''\<rparr>"

definition ex_signIn_unknown :: SignInReqDto where
  "ex_signIn_unknown = \<lparr>si_deviceId = ''d1'', si_email = ''b@x.com'', si_password = ''p1''\<rparr>"

definition ex_tokens1 :: TokenResDto where
  "ex_tokens1 = \<lparr>accessToken = ''a1'', refreshToken_of = ''r1''\<rparr>"

definition ex_tokens2 :: TokenResDto where
  "ex_tokens2 = \<lparr>accessToken = ''a2'', refreshToken_of = ''r2''\<rparr>"

definition ex_newUser :: UserEntity where
  "ex_newUser = \<lparr>u_id = ''u2'', u_email = ''b@x.com'', u_password = ''h:p2'', u_role = USER\<rparr>"

definition ex_userData :: IUserData where
  "ex_userData = \<lparr>userId = ''u1'', deviceId = ''d1''\<rparr>"

definition ex_userData_missing :: IUserData where
  "ex_userData_missing = \<lparr>userId = ''u9'', deviceId = ''d1''\<rparr>"

text \<open>
  The state \<open>ex_state\<close> with a row left in each token store under the identity \<open>u2\<close>,
  which no stored user has.
\<close>

definition ex_state_stale :: state where
  "ex_state_stale =
     \<lparr>users = [ex_user],
      refreshTokens = [((''u1'', ''d1''), ''r0''), ((''u2'', ''d1''), ''r9'')],
      cache = [((''u1'', ''d1''), ''a0''), ((''u2'', ''d1''), ''a9'')], trace = []\<rparr>"

section \<open>Lemmas on the stores and on the flows\<close>

lemmas store_defs = refreshRepository_saveToken_def refreshRepository_delete_def
  authCacheService_saveToken_def authCacheService_removeToken_def Promise_all_def

lemmas ex_defs = ex_user_def ex_state_def empty_state_def ex_env_def ex_env2_def failing_env_def
  ex_tokens1_def ex_tokens2_def ex_newUser_def ex_signUp_def ex_signUp_duplicate_def ex_signIn_def ex_signIn_wrong_def ex_signIn_unknown_def
  ex_userData_def ex_userData_missing_def ex_state_stale_def

lemmas flow_defs = signUp_def signUpAdmin_def signIn_def logout_def refreshToken_def
  isEmailUniqOrThrow_def userRepository_findOne_def userRepository_findOneBy_def
  userRepository_create_def userRepository_save_def toResponseDto_def await_def truthy_def

lemma tokensOf_append [simp]: "tokensOf u d (xs @ ys) = tokensOf u d xs @ tokensOf u d ys"
  by (simp add: tokensOf_def)

lemma tokensOf_row [simp]:
  "tokensOf u d [((u', d'), t)] = (if u' = u \<and> d' = d then [t] else [])"
  by (simp add: tokensOf_def)

lemma tokensOf_Nil [simp]: "tokensOf u d [] = []"
  by (simp add: tokensOf_def)

lemma tokensOf_deleted [simp]:
  "tokensOf u d (filter (\<lambda>r. fst r \<noteq> (u', d')) st) =
     (if u' = u \<and> d' = d then [] else tokensOf u d st)"
proof -
  have "filter (\<lambda>r. fst r = (u, d)) (filter (\<lambda>r. fst r \<noteq> (u', d')) st) =
        (if u' = u \<and> d' = d then [] else filter (\<lambda>r. fst r = (u, d)) st)"
    by (induction st) auto
  then show ?thesis by (simp add: tokensOf_def)
qed

lemma delete_absent: "tokensOf u d st = [] \<Longrightarrow> filter (\<lambda>r. fst r \<noteq> (u, d)) st = st"
  by (induction st) (auto simp: tokensOf_def split: if_splits)

lemma findOneBy_id: "userRepository_findOneBy i s = Some u \<Longrightarrow> u_id u = i"
  by (auto simp: userRepository_findOneBy_def find_Some_iff)

lemma findOneBy_stored: "userRepository_findOneBy i s = Some u \<Longrightarrow> u \<in> set (users s)"
  by (auto simp: userRepository_findOneBy_def find_Some_iff)

lemma find_Some_mem: "find P xs = Some x \<Longrightarrow> x \<in> set xs \<and> P x"
  by (auto simp: find_Some_iff)

lemma findOne_found_again:
  "userRepository_findOne m s = Some u \<Longrightarrow> userRepository_findOneBy (u_id u) s \<noteq> None"
  by (auto simp: userRepository_findOne_def userRepository_findOneBy_def find_None_iff
      dest: find_Some_mem)

lemma newEvents_append [simp]: "trace s' = trace s @ evs \<Longrightarrow> newEvents s s' = evs"
  by (simp add: newEvents_def)

lemma newEvents_same [simp]: "newEvents s s = []"
  by (simp add: newEvents_def)

lemma phases_ordered: "deletesBeforeWrites (deletePhase a u d @ writePhase b u' d' t)"
  by (simp add: deletesBeforeWrites_def deletePhase_def writePhase_def)

text \<open>A sign-in reads the user store twice; the second read cannot miss.\<close>

lemma signIn_no_TypeError: "fst (signIn e dto s) \<noteq> Inl TypeError"
proof (cases "userRepository_findOne (si_email dto) s")
  case None
  then show ?thesis by (simp add: signIn_def)
next
  case (Some u)
  with findOne_found_again [OF Some] show ?thesis
    by (auto simp: signIn_def Let_def)
qed

lemma signIn_failed: "signIn e dto s = (Inl err, s') \<Longrightarrow> s' = s"
  by (auto simp: signIn_def Let_def split: option.splits if_splits)



lemma signIn_trace:
  "signIn e dto s = (Inr r, s') \<Longrightarrow>
   trace s' = trace s @ deletePhase (deleteInOrder e) (u_id (res_user r)) (si_deviceId dto)
                      @ writePhase (saveInOrder e) (u_id (res_user r)) (si_deviceId dto) (res_tokens r)"
  by (auto simp: signIn_def toResponseDto_def store_defs Let_def deletePhase_def writePhase_def
      split: option.splits if_splits)


lemma refreshToken_failed: "refreshToken e ud s = (Inl err, s') \<Longrightarrow> s' = s"
  by (auto simp: refreshToken_def Let_def split: option.splits if_splits)

lemma refreshToken_session:
  assumes "refreshToken e ud s = (Inr t, s')"
  shows "t = generateAuthTokens e \<lparr>userId = userId ud, deviceId = deviceId ud\<rparr> \<and>
         users s' = users s \<and>
         tokensOf (userId ud) (deviceId ud) (refreshTokens s') = [refreshToken_of t] \<and>
         tokensOf (userId ud) (deviceId ud) (cache s') = [accessToken t]"
  using assms
  by (auto simp: refreshToken_def store_defs Let_def dest!: findOneBy_id
      split: option.splits if_splits)

lemma refreshToken_trace:
  "refreshToken e ud s = (Inr t, s') \<Longrightarrow>
   trace s' = trace s @ deletePhase (deleteInOrder e) (userId ud) (deviceId ud)
                      @ writePhase (saveInOrder e) (userId ud) (deviceId ud) t"
  by (auto simp: refreshToken_def store_defs Let_def deletePhase_def writePhase_def
      dest!: findOneBy_id split: option.splits if_splits)

lemma logout_stores:
  "logout e ud s =
     (Inr (), s\<lparr>refreshTokens := filter (\<lambda>r. fst r \<noteq> (userId ud, deviceId ud)) (refreshTokens s),
               cache := filter (\<lambda>r. fst r \<noteq> (userId ud, deviceId ud)) (cache s),
               trace := trace s @ deletePhase (deleteInOrder e) (userId ud) (deviceId ud)\<rparr>)"
  by (simp add: logout_def store_defs deletePhase_def)


lemma integrity_empty: "sessionsReferenceUsers empty_state"
  by (simp add: sessionsReferenceUsers_def empty_state_def)


lemma integrity_signUpAdmin:
  "sessionsReferenceUsers s \<Longrightarrow> sessionsReferenceUsers (snd (signUpAdmin e dto s))"
  by (auto simp: signUpAdmin_def userRepository_save_def store_defs Let_def truthy_def
      sessionsReferenceUsers_def list_all_iff split: sum.splits)

lemma integrity_signIn:
  "sessionsReferenceUsers s \<Longrightarrow> sessionsReferenceUsers (snd (signIn e dto s))"
  by (auto simp: signIn_def store_defs Let_def sessionsReferenceUsers_def list_all_iff
      split: option.splits dest: findOneBy_stored)

lemma integrity_logout:
  "sessionsReferenceUsers s \<Longrightarrow> sessionsReferenceUsers (snd (logout e ud s))"
  by (auto simp: logout_stores sessionsReferenceUsers_def list_all_iff)

lemma integrity_refreshToken:
  "sessionsReferenceUsers s \<Longrightarrow> sessionsReferenceUsers (snd (refreshToken e ud s))"
  by (auto simp: refreshToken_def store_defs Let_def sessionsReferenceUsers_def list_all_iff
      split: option.splits dest: findOneBy_stored)

text \<open>Whatever the hasher answers, the admin sign-up does not end as unauthorized.\<close>

lemma signUpAdmin_never_unauthorized:
  "fst (signUpAdmin e dto s) \<noteq> Inl UnauthorizedException"
  by (auto simp: signUpAdmin_def isEmailUniqOrThrow_def truthy_def userRepository_save_def Let_def
      split: option.splits)



lemma result_pair: "fst p = a \<Longrightarrow> p = (a, snd p)"
  by (cases p) simp


section \<open>The claims\<close>

text \<open>
  Claim C1. When the re-verification of the hashed password against the plain password
  fails, \<open>signUpAdmin\<close> is to fail with \<open>UnauthorizedException\<close> and to write no
  refresh-token row and no cache entry. The source calls \<^verbatim>\<open>bcrypt.compare\<close> without
  \<^verbatim>\<open>await\<close> (\<open>signIn\<close> awaits the same call), so the value tested is the promise, which
  is truthy. With a hasher whose verification answers \<open>False\<close> the call returns the user
  with a token pair, and both stores hold a row for the new user: the code does not do
  what the claim says.
\<close>

theorem signUpAdmin_failed_recheck_issues_session:
  "bcrypt_compare failing_env (su_password ex_signUp)
     (bcrypt_hash failing_env (su_password ex_signUp)) = False \<and>
   fst (signUpAdmin failing_env ex_signUp empty_state) =
     Inr \<lparr>res_user = ex_newUser\<lparr>u_role := ADMIN\<rparr>, res_tokens = ex_tokens1\<rparr> \<and>
   users (snd (signUpAdmin failing_env ex_signUp empty_state)) = [ex_newUser\<lparr>u_role := ADMIN\<rparr>] \<and>
   refreshTokens (snd (signUpAdmin failing_env ex_signUp empty_state)) = [((''u2'', ''d1''), ''r1'')] \<and>
   cache (snd (signUpAdmin failing_env ex_signUp empty_state)) = [((''u2'', ''d1''), ''a1'')]"
  by (simp add: flow_defs store_defs ex_defs Let_def)




text \<open>
  Claim C3. A \<open>signIn\<close> with an email that no user has and a \<open>signIn\<close> with the email of
  a user and a password that does not verify both fail with \<open>UnauthorizedException\<close>:
  the two calls return the same error and leave the same state, so the caller cannot
  tell the two causes apart.
\<close>

theorem signIn_failures_indistinguishable:
  assumes "userRepository_findOne (si_email dto1) s = None"
    and "userRepository_findOne (si_email dto2) s = Some u"
    and "\<not> bcrypt_compare e (si_password dto2) (u_password u)"
  shows "fst (signIn e dto1 s) = Inl UnauthorizedException \<and>
         fst (signIn e dto2 s) = Inl UnauthorizedException \<and>
         signIn e dto1 s = signIn e dto2 s"
  using assms by (simp add: signIn_def await_def)

theorem signIn_failures_indistinguishable_witness:
  "userRepository_findOne (si_email ex_signIn_unknown) ex_state = None \<and>
   userRepository_findOne (si_email ex_signIn_wrong) ex_state = Some ex_user \<and>
   \<not> bcrypt_compare ex_env (si_password ex_signIn_wrong) (u_password ex_user) \<and>
   fst (signIn ex_env ex_signIn_unknown ex_state) = Inl UnauthorizedException \<and>
   fst (signIn ex_env ex_signIn_wrong ex_state) = Inl UnauthorizedException \<and>
   signIn ex_env ex_signIn_unknown ex_state = signIn ex_env ex_signIn_wrong ex_state"
proof -
  have h1: "userRepository_findOne (si_email ex_signIn_unknown) ex_state = None"
    by (simp add: userRepository_findOne_def ex_defs)
  have h2: "userRepository_findOne (si_email ex_signIn_wrong) ex_state = Some ex_user"
    by (simp add: userRepository_findOne_def ex_defs)
  have h3: "\<not> bcrypt_compare ex_env (si_password ex_signIn_wrong) (u_password ex_user)"
    by (simp add: ex_defs)
  from signIn_failures_indistinguishable [OF h1 h2 h3] h1 h2 h3 show ?thesis by blast
qed

text \<open>
  Claim C4. A \<open>signIn\<close> with the email of a user and a password that does not verify
  fails with \<open>UnauthorizedException\<close> and returns the state it was given: the
  refresh-token store and the cache are as before, for every user and device, and no
  store operation was applied.
\<close>

theorem signIn_wrong_password_keeps_sessions:
  assumes "userRepository_findOne (si_email dto) s = Some u"
    and "\<not> bcrypt_compare e (si_password dto) (u_password u)"
  shows "signIn e dto s = (Inl UnauthorizedException, s) \<and>
         refreshTokens (snd (signIn e dto s)) = refreshTokens s \<and>
         cache (snd (signIn e dto s)) = cache s \<and>
         newEvents s (snd (signIn e dto s)) = []"
  using assms by (simp add: signIn_def await_def)

theorem signIn_wrong_password_keeps_sessions_witness:
  "userRepository_findOne (si_email ex_signIn_wrong) ex_state = Some ex_user \<and>
   \<not> bcrypt_compare ex_env (si_password ex_signIn_wrong) (u_password ex_user) \<and>
   signIn ex_env ex_signIn_wrong ex_state = (Inl UnauthorizedException, ex_state) \<and>
   refreshTokens (snd (signIn ex_env ex_signIn_wrong ex_state)) = [((''u1'', ''d1''), ''r0'')] \<and>
   cache (snd (signIn ex_env ex_signIn_wrong ex_state)) = [((''u1'', ''d1''), ''a0'')]"
proof -
  have h1: "userRepository_findOne (si_email ex_signIn_wrong) ex_state = Some ex_user"
    by (simp add: userRepository_findOne_def ex_defs)
  have h2: "\<not> bcrypt_compare ex_env (si_password ex_signIn_wrong) (u_password ex_user)"
    by (simp add: ex_defs)
  have "refreshTokens ex_state = [((''u1'', ''d1''), ''r0'')]"
    and "cache ex_state = [((''u1'', ''d1''), ''a0'')]"
    by (simp_all add: ex_state_def)
  with signIn_wrong_password_keeps_sessions [OF h1 h2] h1 h2 show ?thesis by simp
qed

text \<open>
  Claim C5. A \<open>signUp\<close> whose email is the email of a stored user fails with
  \<open>ConflictException\<close> and returns the state it was given: nothing is written to the
  user store, to the refresh-token store or to the cache.
\<close>

theorem signUp_duplicate_email_conflict:
  assumes "\<exists>u\<in>set (users s). u_email u = su_email dto"
  shows "signUp e dto s = (Inl ConflictException, s) \<and>
         newEvents s (snd (signUp e dto s)) = []"
proof -
  from assms have "find (\<lambda>u. u_email u = su_email dto) (users s) \<noteq> None"
    by (auto simp: find_None_iff)
  then show ?thesis
    by (auto simp: signUp_def isEmailUniqOrThrow_def)
qed

theorem signUp_duplicate_email_conflict_witness:
  "ex_user \<in> set (users ex_state) \<and> u_email ex_user = su_email ex_signUp_duplicate \<and>
   signUp ex_env ex_signUp_duplicate ex_state = (Inl ConflictException, ex_state)"
proof -
  have h: "ex_user \<in> set (users ex_state)" "u_email ex_user = su_email ex_signUp_duplicate"
    by (simp_all add: ex_defs)
  then have "\<exists>u\<in>set (users ex_state). u_email u = su_email ex_signUp_duplicate" by blast
  from signUp_duplicate_email_conflict [OF this] h show ?thesis by simp
qed

text \<open>
  Claim C6. In every \<open>signIn\<close> and \<open>refreshToken\<close> the deletion of the refresh-token
  row and the removal of the cache entry of the device both come before the two writes,
  whichever of the two deletions and whichever of the two writes takes effect first: a
  successful call adds to the trace the two deletions followed by the two writes, and in
  no call does a deletion follow a write.
\<close>

theorem delete_phase_before_write_phase:
  "(fst (signIn e dto s) = Inr r \<longrightarrow>
      newEvents s (snd (signIn e dto s)) =
        deletePhase (deleteInOrder e) (u_id (res_user r)) (si_deviceId dto) @
        writePhase (saveInOrder e) (u_id (res_user r)) (si_deviceId dto) (res_tokens r)) \<and>
   (fst (refreshToken e ud s) = Inr t \<longrightarrow>
      newEvents s (snd (refreshToken e ud s)) =
        deletePhase (deleteInOrder e) (userId ud) (deviceId ud) @
        writePhase (saveInOrder e) (userId ud) (deviceId ud) t) \<and>
   deletesBeforeWrites (newEvents s (snd (signIn e dto s))) \<and>
   deletesBeforeWrites (newEvents s (snd (refreshToken e ud s)))"
proof -
  have a: "deletesBeforeWrites (newEvents s (snd (signIn e dto s)))"
  proof (cases "signIn e dto s")
    case (Pair res s')
    show ?thesis
    proof (cases res)
      case (Inl err)
      with Pair have "s' = s" by (simp add: signIn_failed)
      with Pair show ?thesis by (simp add: deletesBeforeWrites_def)
    next
      case (Inr r')
      with Pair show ?thesis by (simp add: signIn_trace [of e dto s r' s'] phases_ordered)
    qed
  qed
  have b: "deletesBeforeWrites (newEvents s (snd (refreshToken e ud s)))"
  proof (cases "refreshToken e ud s")
    case (Pair res s')
    show ?thesis
    proof (cases res)
      case (Inl err)
      with Pair have "s' = s" by (simp add: refreshToken_failed)
      with Pair show ?thesis by (simp add: deletesBeforeWrites_def)
    next
      case (Inr t')
      with Pair show ?thesis by (simp add: refreshToken_trace [of e ud s t' s'] phases_ordered)
    qed
  qed
  have c: "newEvents s (snd (signIn e dto s)) =
        deletePhase (deleteInOrder e) (u_id (res_user r)) (si_deviceId dto) @
        writePhase (saveInOrder e) (u_id (res_user r)) (si_deviceId dto) (res_tokens r)"
    if "fst (signIn e dto s) = Inr r"
    using signIn_trace [OF result_pair [OF that]] by simp
  have d: "newEvents s (snd (refreshToken e ud s)) =
        deletePhase (deleteInOrder e) (userId ud) (deviceId ud) @
        writePhase (saveInOrder e) (userId ud) (deviceId ud) t"
    if "fst (refreshToken e ud s) = Inr t"
    using refreshToken_trace [OF result_pair [OF that]] by simp
  from a b c d show ?thesis by blast
qed

theorem delete_phase_before_write_phase_witness:
  "fst (signIn ex_env2 ex_signIn ex_state) = Inr \<lparr>res_user = ex_user, res_tokens = ex_tokens2\<rparr> \<and>
   fst (refreshToken ex_env2 ex_userData ex_state) = Inr ex_tokens2 \<and>
   newEvents ex_state (snd (signIn ex_env2 ex_signIn ex_state)) =
     [CacheRemoved ''u1'' ''d1'', RefreshDeleted ''u1'' ''d1'',
      RefreshSaved ''u1'' ''d1'' ''r2'', CacheSaved ''u1'' ''d1'' ''a2''] \<and>
   newEvents ex_state (snd (refreshToken ex_env2 ex_userData ex_state)) =
     [CacheRemoved ''u1'' ''d1'', RefreshDeleted ''u1'' ''d1'',
      RefreshSaved ''u1'' ''d1'' ''r2'', CacheSaved ''u1'' ''d1'' ''a2''] \<and>
   deletesBeforeWrites (newEvents ex_state (snd (signIn ex_env2 ex_signIn ex_state))) \<and>
   deletesBeforeWrites (newEvents ex_state (snd (refreshToken ex_env2 ex_userData ex_state)))"
proof -
  have h1: "fst (signIn ex_env2 ex_signIn ex_state) =
              Inr \<lparr>res_user = ex_user, res_tokens = ex_tokens2\<rparr>"
    by (simp add: flow_defs store_defs ex_defs Let_def)
  have h2: "fst (refreshToken ex_env2 ex_userData ex_state) = Inr ex_tokens2"
    by (simp add: flow_defs store_defs ex_defs Let_def)
  have p: "deleteInOrder ex_env2 = False" "saveInOrder ex_env2 = True"
    "si_deviceId ex_signIn = ''d1''" "userId ex_userData = ''u1''" "deviceId ex_userData = ''d1''"
    "u_id ex_user = ''u1''" "accessToken ex_tokens2 = ''a2''" "refreshToken_of ex_tokens2 = ''r2''"
    by (simp_all add: ex_defs)
  note t = delete_phase_before_write_phase [where e = ex_env2 and dto = ex_signIn
      and s = ex_state and r = "\<lparr>res_user = ex_user, res_tokens = ex_tokens2\<rparr>"
      and t = ex_tokens2 and ud = ex_userData]
  from t h1 h2 show ?thesis
    by (simp add: deletePhase_def writePhase_def deletesBeforeWrites_def p)
qed

text \<open>
  Claim C7. \<open>logout\<close> succeeds also when the device has no refresh-token row and no
  cache entry: it returns without error, the stores are then as they were, and in every
  case no row of the device is left in either store. A second \<open>logout\<close> succeeds again
  and changes none of the stores.
\<close>

theorem logout_delete_if_present:
  "fst (logout e ud s) = Inr () \<and>
   tokensOf (userId ud) (deviceId ud) (refreshTokens (snd (logout e ud s))) = [] \<and>
   tokensOf (userId ud) (deviceId ud) (cache (snd (logout e ud s))) = [] \<and>
   (tokensOf (userId ud) (deviceId ud) (refreshTokens s) = [] \<longrightarrow>
      refreshTokens (snd (logout e ud s)) = refreshTokens s) \<and>
   (tokensOf (userId ud) (deviceId ud) (cache s) = [] \<longrightarrow>
      cache (snd (logout e ud s)) = cache s) \<and>
   fst (logout e' ud (snd (logout e ud s))) = Inr () \<and>
   refreshTokens (snd (logout e' ud (snd (logout e ud s)))) = refreshTokens (snd (logout e ud s)) \<and>
   cache (snd (logout e' ud (snd (logout e ud s)))) = cache (snd (logout e ud s)) \<and>
   users (snd (logout e' ud (snd (logout e ud s)))) = users (snd (logout e ud s))"
  by (simp add: logout_stores delete_absent)

theorem logout_delete_if_present_witness:
  "tokensOf (userId ex_userData) (deviceId ex_userData) (refreshTokens empty_state) = [] \<and>
   tokensOf (userId ex_userData) (deviceId ex_userData) (cache empty_state) = [] \<and>
   fst (logout ex_env ex_userData empty_state) = Inr () \<and>
   refreshTokens (snd (logout ex_env ex_userData empty_state)) = [] \<and>
   cache (snd (logout ex_env ex_userData empty_state)) = [] \<and>
   fst (logout ex_env2 ex_userData (snd (logout ex_env ex_userData empty_state))) = Inr () \<and>
   refreshTokens (snd (logout ex_env2 ex_userData (snd (logout ex_env ex_userData empty_state)))) = [] \<and>
   cache (snd (logout ex_env2 ex_userData (snd (logout ex_env ex_userData empty_state)))) = []"
proof -
  have h: "tokensOf (userId ex_userData) (deviceId ex_userData) (refreshTokens empty_state) = []"
    "tokensOf (userId ex_userData) (deviceId ex_userData) (cache empty_state) = []"
    by (simp_all add: empty_state_def)
  have p: "refreshTokens empty_state = []" "cache empty_state = []"
    by (simp_all add: empty_state_def)
  from logout_delete_if_present [of ex_env ex_userData empty_state ex_env2] h show ?thesis
    by (simp add: p)
qed

text \<open>
  Claim C8. A successful \<open>refreshToken\<close> returns the token pair alone, and the claim
  adds that both returned tokens differ from the tokens stored for the device before the
  call. The method returns what the token issuer gives and compares it with nothing:
  after a sign-in, a refresh for which the issuer signs the same pair again returns the
  tokens that were stored.
\<close>

theorem refreshToken_rotation_counterexample:
  "fst (refreshToken ex_env ex_userData (snd (signIn ex_env ex_signIn ex_state))) = Inr ex_tokens1 \<and>
   tokensOf (userId ex_userData) (deviceId ex_userData)
     (refreshTokens (snd (signIn ex_env ex_signIn ex_state))) = [refreshToken_of ex_tokens1] \<and>
   tokensOf (userId ex_userData) (deviceId ex_userData)
     (cache (snd (signIn ex_env ex_signIn ex_state))) = [accessToken ex_tokens1]"
  by (simp add: flow_defs store_defs ex_defs Let_def tokensOf_def)

text \<open>
  Claim C8, as amended. A successful \<open>refreshToken\<close> returns the token pair alone, and
  it is the pair that the token issuer has produced for the user and the device; after
  the call each store holds exactly that token for the device, whatever it held before.
  The returned tokens differ from the tokens stored before the call when the pair of the
  issuer does.
\<close>

theorem refreshToken_returns_issued_pair:
  "fst (refreshToken e ud s) = Inr t \<longrightarrow>
     t = generateAuthTokens e \<lparr>userId = userId ud, deviceId = deviceId ud\<rparr> \<and>
     tokensOf (userId ud) (deviceId ud) (refreshTokens (snd (refreshToken e ud s)))
       = [refreshToken_of t] \<and>
     tokensOf (userId ud) (deviceId ud) (cache (snd (refreshToken e ud s))) = [accessToken t] \<and>
     (refreshToken_of t \<in> set (tokensOf (userId ud) (deviceId ud) (refreshTokens s)) \<longleftrightarrow>
        refreshToken_of (generateAuthTokens e \<lparr>userId = userId ud, deviceId = deviceId ud\<rparr>)
          \<in> set (tokensOf (userId ud) (deviceId ud) (refreshTokens s))) \<and>
     (accessToken t \<in> set (tokensOf (userId ud) (deviceId ud) (cache s)) \<longleftrightarrow>
        accessToken (generateAuthTokens e \<lparr>userId = userId ud, deviceId = deviceId ud\<rparr>)
          \<in> set (tokensOf (userId ud) (deviceId ud) (cache s)))"
proof
  assume "fst (refreshToken e ud s) = Inr t"
  from refreshToken_session [OF result_pair [OF this]]
  show "t = generateAuthTokens e \<lparr>userId = userId ud, deviceId = deviceId ud\<rparr> \<and>
     tokensOf (userId ud) (deviceId ud) (refreshTokens (snd (refreshToken e ud s)))
       = [refreshToken_of t] \<and>
     tokensOf (userId ud) (deviceId ud) (cache (snd (refreshToken e ud s))) = [accessToken t] \<and>
     (refreshToken_of t \<in> set (tokensOf (userId ud) (deviceId ud) (refreshTokens s)) \<longleftrightarrow>
        refreshToken_of (generateAuthTokens e \<lparr>userId = userId ud, deviceId = deviceId ud\<rparr>)
          \<in> set (tokensOf (userId ud) (deviceId ud) (refreshTokens s))) \<and>
     (accessToken t \<in> set (tokensOf (userId ud) (deviceId ud) (cache s)) \<longleftrightarrow>
        accessToken (generateAuthTokens e \<lparr>userId = userId ud, deviceId = deviceId ud\<rparr>)
          \<in> set (tokensOf (userId ud) (deviceId ud) (cache s)))"
    by simp
qed

theorem refreshToken_returns_issued_pair_witness:
  "fst (refreshToken ex_env2 ex_userData ex_state) = Inr ex_tokens2 \<and>
   ex_tokens2 = generateAuthTokens ex_env2 \<lparr>userId = ''u1'', deviceId = ''d1''\<rparr> \<and>
   tokensOf ''u1'' ''d1'' (refreshTokens ex_state) = [''r0''] \<and>
   tokensOf ''u1'' ''d1'' (cache ex_state) = [''a0''] \<and>
   tokensOf ''u1'' ''d1'' (refreshTokens (snd (refreshToken ex_env2 ex_userData ex_state))) = [''r2''] \<and>
   tokensOf ''u1'' ''d1'' (cache (snd (refreshToken ex_env2 ex_userData ex_state))) = [''a2'']"
proof -
  have h: "fst (refreshToken ex_env2 ex_userData ex_state) = Inr ex_tokens2"
    by (simp add: flow_defs store_defs ex_defs Let_def)
  have p: "userId ex_userData = ''u1''" "deviceId ex_userData = ''d1''"
    "accessToken ex_tokens2 = ''a2''" "refreshToken_of ex_tokens2 = ''r2''"
    "tokensOf ''u1'' ''d1'' (refreshTokens ex_state) = [''r0'']"
    "tokensOf ''u1'' ''d1'' (cache ex_state) = [''a0'']"
    by (simp_all add: ex_defs)
  from refreshToken_returns_issued_pair [of ex_env2 ex_userData ex_state ex_tokens2] h
  show ?thesis by (simp add: p)
qed

text \<open>
  Claim C9. A \<open>refreshToken\<close> for a user identity that no stored user has reads
  \<^verbatim>\<open>user.id\<close> of \<^verbatim>\<open>null\<close> while it builds the criteria of the first deletion: the call
  ends with a \<open>TypeError\<close>, not with \<open>NotFoundException\<close>, and it returns the state it
  was given, so neither store operation was applied.
\<close>

theorem refreshToken_missing_user_fails_early:
  assumes "\<forall>u\<in>set (users s). u_id u \<noteq> userId ud"
  shows "refreshToken e ud s = (Inl TypeError, s) \<and>
         fst (refreshToken e ud s) \<noteq> Inl NotFoundException \<and>
         refreshTokens (snd (refreshToken e ud s)) = refreshTokens s \<and>
         cache (snd (refreshToken e ud s)) = cache s \<and>
         newEvents s (snd (refreshToken e ud s)) = []"
proof -
  from assms have "userRepository_findOneBy (userId ud) s = None"
    by (auto simp: userRepository_findOneBy_def find_None_iff)
  then show ?thesis by (simp add: refreshToken_def)
qed

theorem refreshToken_missing_user_fails_early_witness:
  "list_all (\<lambda>u. u_id u \<noteq> userId ex_userData_missing) (users ex_state) \<and>
   refreshToken ex_env ex_userData_missing ex_state = (Inl TypeError, ex_state) \<and>
   refreshTokens (snd (refreshToken ex_env ex_userData_missing ex_state)) = [((''u1'', ''d1''), ''r0'')] \<and>
   cache (snd (refreshToken ex_env ex_userData_missing ex_state)) = [((''u1'', ''d1''), ''a0'')]"
proof -
  have h: "\<forall>u\<in>set (users ex_state). u_id u \<noteq> userId ex_userData_missing"
    by (simp add: ex_defs)
  have p: "refreshTokens ex_state = [((''u1'', ''d1''), ''r0'')]"
    "cache ex_state = [((''u1'', ''d1''), ''a0'')]"
    by (simp_all add: ex_state_def)
  from h have "list_all (\<lambda>u. u_id u \<noteq> userId ex_userData_missing) (users ex_state)"
    by (simp add: list_all_iff)
  with refreshToken_missing_user_fails_early [OF h] show ?thesis by (simp add: p)
qed

text \<open>
  Claim C10. \<open>logout\<close> does not read the user store: it returns without error whether
  or not the user exists, its outcome is the same for every content of the user store,
  which it returns as it was, and its effects are exactly the two deletions for the
  device, which remove the rows of that device and no other row.
\<close>

theorem logout_frame:
  "fst (logout e ud s) = Inr () \<and>
   users (snd (logout e ud s)) = users s \<and>
   logout e ud (s\<lparr>users := us\<rparr>) = (Inr (), (snd (logout e ud s))\<lparr>users := us\<rparr>) \<and>
   newEvents s (snd (logout e ud s)) = deletePhase (deleteInOrder e) (userId ud) (deviceId ud) \<and>
   refreshTokens (snd (logout e ud s)) =
     filter (\<lambda>r. fst r \<noteq> (userId ud, deviceId ud)) (refreshTokens s) \<and>
   cache (snd (logout e ud s)) =
     filter (\<lambda>r. fst r \<noteq> (userId ud, deviceId ud)) (cache s)"
  by (simp add: logout_stores)

theorem logout_frame_witness:
  "fst (logout ex_env ex_userData_missing ex_state) = Inr () \<and>
   users (snd (logout ex_env ex_userData ex_state)) = [ex_user] \<and>
   logout ex_env ex_userData (ex_state\<lparr>users := []\<rparr>) =
     (Inr (), (snd (logout ex_env ex_userData ex_state))\<lparr>users := []\<rparr>) \<and>
   newEvents ex_state (snd (logout ex_env ex_userData ex_state)) =
     [RefreshDeleted ''u1'' ''d1'', CacheRemoved ''u1'' ''d1''] \<and>
   refreshTokens (snd (logout ex_env ex_userData ex_state)) = [] \<and>
   cache (snd (logout ex_env ex_userData ex_state)) = [] \<and>
   refreshTokens (snd (logout ex_env ex_userData_missing ex_state)) = [((''u1'', ''d1''), ''r0'')] \<and>
   cache (snd (logout ex_env ex_userData_missing ex_state)) = [((''u1'', ''d1''), ''a0'')]"
proof -
  have p: "users ex_state = [ex_user]" "refreshTokens ex_state = [((''u1'', ''d1''), ''r0'')]"
    "cache ex_state = [((''u1'', ''d1''), ''a0'')]"
    "userId ex_userData = ''u1''" "deviceId ex_userData = ''d1''"
    "userId ex_userData_missing = ''u9''" "deviceId ex_userData_missing = ''d1''"
    "deleteInOrder ex_env = True"
    by (simp_all add: ex_defs)
  from logout_frame [of ex_env ex_userData ex_state "[]"]
    logout_frame [of ex_env ex_userData_missing ex_state "[]"]
  show ?thesis by (simp add: p deletePhase_def)
qed

end
